theory Spec2Isabelle
  imports Complex_Main
begin

section \<open>The ledger store\<close>

text \<open>
  The tables \<open>inventory\<close>, \<open>stock_movements\<close> and \<open>products\<close> are lists of rows in
  table order, with the columns that \<open>init_database\<close> of \<open>app.py\<close> gives them: no
  \<open>CHECK\<close> restricts \<open>movement_type\<close> and no uniqueness of (product, warehouse) is
  assumed, so an \<open>UPDATE\<close> rewrites every matching row and \<open>fetchone\<close> returns the
  first one. Integer columns hold Python integers. Time stamps are readings of a clock in
  seconds. The surrogate key \<open>id\<close> of each table is read by none of the operations below
  and is left out.
\<close>

type_synonym timestamp = int

record inventory_row =
  product_id :: int
  warehouse_id :: int
  quantity :: int
  reserved_quantity :: int
  reorder_level :: int
  max_stock_level :: int
  last_updated :: timestamp

record movement_row =
  sm_product_id :: int
  sm_warehouse_id :: int
  movement_type :: string
  sm_quantity :: int
  sm_reference_number :: "string option"
  sm_notes :: "string option"
  sm_user_id :: int
  created_at :: timestamp

record product_row =
  p_id :: int
  p_name :: string

record ledger =
  inventory :: "inventory_row list"
  stock_movements :: "movement_row list"
  products :: "product_row list"

text \<open>
  The clock readings one call makes: \<open>datetime.now()\<close> at the first and at the second
  \<open>UPDATE\<close>, the \<open>%Y%m%d%H%M%S\<close> rendering of \<open>datetime.now()\<close> used in the
  reference number, and the store's \<open>CURRENT_TIMESTAMP\<close> that fills defaulted columns.
\<close>

record clock =
  now_first :: timestamp
  now_second :: timestamp
  now_stamp :: string
  current_timestamp :: timestamp

subsection \<open>Rendering integers\<close>

definition digit_char :: "nat \<Rightarrow> char" where
  "digit_char d = char_of (48 + d)"

function str_nat :: "nat \<Rightarrow> string" where
  "str_nat n = (if n < 10 then [digit_char n] else str_nat (n div 10) @ [digit_char (n mod 10)])"
  by pat_completeness auto
termination
  by (relation "measure (\<lambda>n. n)") auto

declare str_nat.simps [simp del]

text \<open>Python's \<open>str\<close> on an integer, as an f-string renders it.\<close>

definition str_int :: "int \<Rightarrow> string" where
  "str_int i = (if i < 0 then CHR ''-'' # str_nat (nat (- i)) else str_nat (nat i))"

subsection \<open>The SQL statements\<close>

definition matches :: "int \<Rightarrow> int \<Rightarrow> inventory_row \<Rightarrow> bool" where
  "matches p w r \<longleftrightarrow> product_id r = p \<and> warehouse_id r = w"

text \<open>\<open>SELECT quantity FROM inventory WHERE product_id = ? AND warehouse_id = ?\<close>, \<open>fetchone\<close>.\<close>

definition select_quantity :: "inventory_row list \<Rightarrow> int \<Rightarrow> int \<Rightarrow> int option" where
  "select_quantity rows p w = map_option quantity (find (matches p w) rows)"

text \<open>\<open>SELECT reorder_level, max_stock_level FROM inventory WHERE ...\<close>, \<open>fetchone\<close>.\<close>

definition select_reorder_info :: "inventory_row list \<Rightarrow> int \<Rightarrow> int \<Rightarrow> (int \<times> int) option" where
  "select_reorder_info rows p w =
     map_option (\<lambda>r. (reorder_level r, max_stock_level r)) (find (matches p w) rows)"

text \<open>\<open>UPDATE inventory SET quantity = ?, last_updated = ? WHERE product_id = ? AND warehouse_id = ?\<close>.\<close>

definition update_quantity ::
  "inventory_row list \<Rightarrow> int \<Rightarrow> timestamp \<Rightarrow> int \<Rightarrow> int \<Rightarrow> inventory_row list" where
  "update_quantity rows q t p w =
     map (\<lambda>r. if matches p w r then r\<lparr>quantity := q, last_updated := t\<rparr> else r) rows"

text \<open>
  \<open>INSERT INTO inventory (product_id, warehouse_id, quantity, reorder_level, max_stock_level)\<close>:
  \<open>reserved_quantity\<close> takes its default 0 and \<open>last_updated\<close> the store's time.
\<close>

definition insert_inventory ::
  "inventory_row list \<Rightarrow> timestamp \<Rightarrow> int \<Rightarrow> int \<Rightarrow> int \<Rightarrow> int \<Rightarrow> int \<Rightarrow> inventory_row list" where
  "insert_inventory rows t p w q rl ml =
     rows @ [\<lparr>product_id = p, warehouse_id = w, quantity = q, reserved_quantity = 0,
              reorder_level = rl, max_stock_level = ml, last_updated = t\<rparr>]"

text \<open>\<open>INSERT INTO stock_movements (..., movement_type, quantity, reference_number, notes, user_id)\<close>.\<close>

definition insert_movement ::
  "movement_row list \<Rightarrow> timestamp \<Rightarrow> int \<Rightarrow> int \<Rightarrow> string \<Rightarrow> int \<Rightarrow> string \<Rightarrow> string \<Rightarrow> int
     \<Rightarrow> movement_row list" where
  "insert_movement rows t p w ty q ref nt u =
     rows @ [\<lparr>sm_product_id = p, sm_warehouse_id = w, movement_type = ty, sm_quantity = q,
              sm_reference_number = Some ref, sm_notes = Some nt, sm_user_id = u,
              created_at = t\<rparr>]"

section \<open>Warehouse controller\<close>

text \<open>Python's \<open>notes or ''\<close>: \<open>None\<close> and the empty string both give the empty string.\<close>

definition or_empty :: "string option \<Rightarrow> string" where
  "or_empty s = (case s of None \<Rightarrow> [] | Some t \<Rightarrow> t)"

text \<open>
  The result dictionary of both controller operations; a key that a result does not
  carry is \<open>None\<close>.
\<close>

record result =
  success :: bool
  message :: string
  transfer_reference :: "string option"
  previous_quantity :: "int option"
  new_quantity :: "int option"
  reference_number :: "string option"

definition failure :: "string \<Rightarrow> result" where
  "failure msg = \<lparr>success = False, message = msg, transfer_reference = None,
                   previous_quantity = None, new_quantity = None, reference_number = None\<rparr>"

text \<open>
  \<open>WarehouseController.transfer_inventory\<close>. The result dictionary and the ledger after
  the call are returned. The statements between \<open>BEGIN TRANSACTION\<close> and \<open>COMMIT\<close> are
  applied in the order of the source; the store holds the values exactly and raises
  nothing, so the two \<open>except\<close> branches (roll back, report \<open>Transfer failed\<close>) are not
  entered.
\<close>

definition transfer_inventory ::
  "clock \<Rightarrow> ledger \<Rightarrow> int \<Rightarrow> int \<Rightarrow> int \<Rightarrow> int \<Rightarrow> int \<Rightarrow> string option
     \<Rightarrow> result \<times> ledger" where
  "transfer_inventory clk db product from_warehouse to_warehouse qty user notes =
     (case select_quantity (inventory db) product from_warehouse of
        None \<Rightarrow>
          (failure ''Product not found in source warehouse'', db)
      | Some source_quantity \<Rightarrow>
          if source_quantity < qty then
            (failure (''Insufficient inventory. Available: '' @ str_int source_quantity
                        @ '', Requested: '' @ str_int qty), db)
          else
            let dest_result = select_quantity (inventory db) product to_warehouse;
                new_source_quantity = source_quantity - qty;
                inv1 = update_quantity (inventory db) new_source_quantity (now_first clk)
                         product from_warehouse;
                inv2 = (case dest_result of
                          Some dest_quantity \<Rightarrow>
                            update_quantity inv1 (dest_quantity + qty) (now_second clk)
                              product to_warehouse
                        | None \<Rightarrow>
                            let reorder_info = select_reorder_info inv1 product from_warehouse;
                                rl = (case reorder_info of Some ri \<Rightarrow> fst ri | None \<Rightarrow> 10);
                                ml = (case reorder_info of Some ri \<Rightarrow> snd ri | None \<Rightarrow> 1000)
                            in insert_inventory inv1 (current_timestamp clk)
                                 product to_warehouse qty rl ml);
                reference = ''TRANSFER-'' @ now_stamp clk;
                mv1 = insert_movement (stock_movements db) (current_timestamp clk)
                        product from_warehouse ''TRANSFER_OUT'' qty reference
                        (''Transfer to warehouse '' @ str_int to_warehouse @ ''. '' @ or_empty notes)
                        user;
                mv2 = insert_movement mv1 (current_timestamp clk)
                        product to_warehouse ''TRANSFER_IN'' qty reference
                        (''Transfer from warehouse '' @ str_int from_warehouse @ ''. '' @ or_empty notes)
                        user
            in (\<lparr>success = True,
                 message = ''Successfully transferred '' @ str_int qty @ '' units'',
                 transfer_reference = Some reference, previous_quantity = None,
                 new_quantity = None, reference_number = None\<rparr>,
                db\<lparr>inventory := inv2, stock_movements := mv2\<rparr>))"


text \<open>The quantity the controller reads for a pair, with 0 where no record exists.\<close>

definition stock_at :: "ledger \<Rightarrow> int \<Rightarrow> int \<Rightarrow> int" where
  "stock_at db p w = (case select_quantity (inventory db) p w of None \<Rightarrow> 0 | Some q \<Rightarrow> q)"

section \<open>Demand predictor\<close>

text \<open>
  Floating-point arithmetic is idealised as exact arithmetic on the reals. \<open>np.mean\<close>
  and \<open>np.std\<close> (the population standard deviation) are only applied to non-empty lists.
\<close>

definition mean :: "real list \<Rightarrow> real" where
  "mean xs = sum_list xs / real (length xs)"

definition np_std :: "real list \<Rightarrow> real" where
  "np_std xs = sqrt (mean (map (\<lambda>x. (x - mean xs)\<^sup>2) xs))"

text \<open>Python's \<open>round(x)\<close>: to the nearest integer, a tie to the even one.\<close>

definition py_round :: "real \<Rightarrow> int" where
  "py_round x =
     (let f = \<lfloor>x\<rfloor>; d = x - of_int f
      in if d < 1 / 2 then f else if 1 / 2 < d then f + 1 else if even f then f else f + 1)"

text \<open>Python's \<open>round(x, 2)\<close>.\<close>

definition round2 :: "real \<Rightarrow> real" where
  "round2 x = of_int (py_round (x * 100)) / 100"

text \<open>
  \<open>InventoryPredictor._get_historical_movements\<close>: the movements of the pair that are not
  older than \<open>days\<close> days at the store's time \<open>now\<close>, \<open>ORDER BY created_at DESC\<close>. Rows
  of equal \<open>created_at\<close>, whose order SQL leaves open, come in reverse table order.
\<close>

definition get_historical_movements ::
  "ledger \<Rightarrow> timestamp \<Rightarrow> int \<Rightarrow> int \<Rightarrow> int \<Rightarrow> movement_row list" where
  "get_historical_movements db now product warehouse days =
     rev (sort_key created_at
       (filter (\<lambda>r. sm_product_id r = product \<and> sm_warehouse_id r = warehouse
                     \<and> now - days * 86400 \<le> created_at r)
          (stock_movements db)))"

record prediction =
  predicted_demand :: real
  predicted_daily_demand :: "real option"
  confidence :: real
  prediction_method :: string
  historical_points :: "nat option"
  prediction_message :: string

text \<open>The key \<open>method\<close> of the dictionary is the field \<open>prediction_method\<close>.\<close>

text \<open>The loop of \<open>predict_demand\<close> that collects the outbound quantities, in row order.\<close>

definition outbound_quantities :: "movement_row list \<Rightarrow> real list" where
  "outbound_quantities historical_data =
     map (\<lambda>r. real_of_int (sm_quantity r))
       (filter (\<lambda>r. movement_type r = ''OUT'' \<or> movement_type r = ''TRANSFER_OUT'') historical_data)"

text \<open>\<open>daily_movements[-7:]\<close>, taken when the list has at least seven elements.\<close>

definition last7 :: "'a list \<Rightarrow> 'a list" where
  "last7 xs = drop (length xs - 7) xs"

text \<open>
  \<open>InventoryPredictor.predict_demand\<close>. \<open>std_dev / (predicted_daily_demand + 1)\<close> is a
  NumPy division: a zero divisor gives an infinity or a NaN, and \<open>max(0.5, _)\<close> then
  returns 0.5.
\<close>

definition predict_demand :: "ledger \<Rightarrow> timestamp \<Rightarrow> int \<Rightarrow> int \<Rightarrow> int \<Rightarrow> prediction" where
  "predict_demand db now product warehouse days =
     (let historical_data = get_historical_movements db now product warehouse 90 in
      if length historical_data < 7 then
        \<lparr>predicted_demand = 10, predicted_daily_demand = None, confidence = 0.3,
         prediction_method = ''default_fallback'', historical_points = None,
         prediction_message = ''Insufficient historical data''\<rparr>
      else
        let daily_movements = outbound_quantities historical_data in
        if daily_movements = [] then
          \<lparr>predicted_demand = 5, predicted_daily_demand = None, confidence = 0.4,
           prediction_method = ''no_outbound_data'', historical_points = None,
           prediction_message = ''No outbound movement data available''\<rparr>
        else
          let recent_avg = (if 7 \<le> length daily_movements then mean (last7 daily_movements)
                            else mean daily_movements);
              overall_avg = mean daily_movements;
              daily = recent_avg * 0.7 + overall_avg * 0.3;
              total = daily * real_of_int days;
              std_dev = np_std daily_movements;
              conf = (if daily + 1 = 0 then 0.5 else max 0.5 (1 - std_dev / (daily + 1)))
          in \<lparr>predicted_demand = round2 total, predicted_daily_demand = Some (round2 daily),
               confidence = round2 conf, prediction_method = ''moving_average'',
               historical_points = Some (length daily_movements),
               prediction_message = ''Prediction based on ''
                 @ str_nat (length daily_movements) @ '' historical data points''\<rparr>)"

section \<open>Reorder recommendation\<close>

record recommendation =
  should_reorder :: bool
  recommended_quantity :: "int option"
  current_stock :: "int option"
  available_stock :: "int option"
  predicted_demand_30_days :: "int option"
  safety_stock :: "int option"
  urgency :: "string option"
  days_until_reorder :: "int option"
  product_name :: "string option"
  recommendation_message :: string

definition no_recommendation :: "string \<Rightarrow> recommendation" where
  "no_recommendation msg =
     \<lparr>should_reorder = False, recommended_quantity = None, current_stock = None,
      available_stock = None, predicted_demand_30_days = None, safety_stock = None,
      urgency = None, days_until_reorder = None, product_name = None,
      recommendation_message = msg\<rparr>"

text \<open>
  \<open>SELECT i.quantity, ..., p.name FROM inventory i JOIN products p ON i.product_id = p.id
  WHERE i.product_id = ? AND i.warehouse_id = ?\<close>, \<open>fetchone\<close>.
\<close>

definition select_inventory_product ::
  "ledger \<Rightarrow> int \<Rightarrow> int \<Rightarrow> (inventory_row \<times> string) option" where
  "select_inventory_product db p w =
     (case find (matches p w) (inventory db) of
        None \<Rightarrow> None
      | Some i \<Rightarrow>
          (case find (\<lambda>pr. p_id pr = p) (products db) of
             None \<Rightarrow> None
           | Some pr \<Rightarrow> Some (i, p_name pr)))"

text \<open>
  \<open>InventoryPredictor.get_reorder_recommendation\<close>. In the branch that needs no reorder
  a predicted demand of 0 makes the quotient infinite and \<open>round\<close> raise, which the
  \<open>except\<close> branch turns into a result.
\<close>

definition get_reorder_recommendation :: "ledger \<Rightarrow> timestamp \<Rightarrow> int \<Rightarrow> int \<Rightarrow> recommendation" where
  "get_reorder_recommendation db now product warehouse =
     (case select_inventory_product db product warehouse of
        None \<Rightarrow> no_recommendation ''Product not found in inventory''
      | Some (i, name) \<Rightarrow>
          let current_qty = quantity i;
              reserved_qty = reserved_quantity i;
              available_qty = current_qty - reserved_qty;
              predicted = predicted_demand (predict_demand db now product warehouse 30);
              safety = predicted * 0.2
          in if available_qty \<le> reorder_level i then
               let target_stock = real_of_int (max_stock_level i) * 0.8;
                   recommended = target_stock - real_of_int available_qty
               in \<lparr>should_reorder = True,
                    recommended_quantity = Some (py_round recommended),
                    current_stock = Some current_qty,
                    available_stock = Some available_qty,
                    predicted_demand_30_days = Some (py_round predicted),
                    safety_stock = Some (py_round safety),
                    urgency = Some (if real_of_int available_qty \<le> real_of_int (reorder_level i) * 0.5
                                    then ''high'' else ''medium''),
                    days_until_reorder = None,
                    product_name = Some name,
                    recommendation_message = ''Reorder recommended: stock level is ''
                      @ str_int available_qty @ '', below reorder level of ''
                      @ str_int (reorder_level i)\<rparr>
             else if predicted = 0 then
               no_recommendation (''Error generating recommendation: ''
                                    @ ''cannot convert float infinity to integer'')
             else
               let days_left = max 1 (real_of_int (available_qty - reorder_level i) / (predicted / 30))
               in \<lparr>should_reorder = False, recommended_quantity = None,
                    current_stock = Some current_qty,
                    available_stock = Some available_qty,
                    predicted_demand_30_days = Some (py_round predicted),
                    safety_stock = None, urgency = None,
                    days_until_reorder = Some (py_round days_left),
                    product_name = Some name,
                    recommendation_message = ''No reorder needed. Estimated ''
                      @ str_int (py_round days_left) @ '' days until reorder point.''\<rparr>)"

section \<open>Columns outside the controller's updates\<close>

text \<open>The columns of an inventory row that no \<open>UPDATE\<close> of the controller sets.\<close>

definition kept_columns :: "inventory_row \<Rightarrow> int \<times> int \<times> int \<times> int \<times> int" where
  "kept_columns r =
     (product_id r, warehouse_id r, reserved_quantity r, reorder_level r, max_stock_level r)"

section \<open>The prediction as the specification words it\<close>

text \<open>
  The specification's reading of the moving average, for comparison with
  \<open>predict_demand\<close>: the outbound quantities are put oldest first, the recent average is
  the mean of the last seven of them (the seven most recent outbound movements), and the
  predicted total is \<open>(0.7 * recentAvg + 0.3 * overallAvg) * days\<close>. The argument is the
  history as the query returns it, newest first, with at least one outbound movement.
\<close>

definition spec_predicted_total :: "movement_row list \<Rightarrow> int \<Rightarrow> real" where
  "spec_predicted_total historical_data days =
     (let oldest_first = rev (outbound_quantities historical_data);
          recent_avg = (if 7 \<le> length oldest_first then mean (last7 oldest_first)
                        else mean oldest_first);
          overall_avg = mean oldest_first
      in (0.7 * recent_avg + 0.3 * overall_avg) * real_of_int days)"

section \<open>Sample ledgers\<close>

definition sample_clock :: clock where
  "sample_clock = \<lparr>now_first = 1000, now_second = 1001, now_stamp = ''20240101120000'',
                    current_timestamp = 1002\<rparr>"

text \<open>
  Product 1 with 100 units (40 of them reserved) at warehouse 1 and none at warehouse 2,
  no record at warehouse 3, and an unrelated product 2.
\<close>

definition sample_ledger :: ledger where
  "sample_ledger =
     \<lparr>inventory =
        [\<lparr>product_id = 1, warehouse_id = 1, quantity = 100, reserved_quantity = 40,
          reorder_level = 20, max_stock_level = 200, last_updated = 0\<rparr>,
         \<lparr>product_id = 1, warehouse_id = 2, quantity = 0, reserved_quantity = 0,
          reorder_level = 10, max_stock_level = 1000, last_updated = 0\<rparr>,
         \<lparr>product_id = 2, warehouse_id = 1, quantity = 50, reserved_quantity = 0,
          reorder_level = 10, max_stock_level = 1000, last_updated = 0\<rparr>],
      stock_movements = [],
      products = [\<lparr>p_id = 1, p_name = ''Widget''\<rparr>, \<lparr>p_id = 2, p_name = ''Gadget''\<rparr>]\<rparr>"

text \<open>A movement of product 1 at warehouse 1.\<close>

definition sample_movement :: "string \<Rightarrow> int \<Rightarrow> timestamp \<Rightarrow> movement_row" where
  "sample_movement ty q t =
     \<lparr>sm_product_id = 1, sm_warehouse_id = 1, movement_type = ty, sm_quantity = q,
      sm_reference_number = None, sm_notes = None, sm_user_id = 7, created_at = t\<rparr>"

text \<open>
  Eight sales of product 1 at warehouse 1, one a day: ten units on each of the first
  seven days and eighty on the last. The store's time is the ninth day.
\<close>

definition sales_ledger :: ledger where
  "sales_ledger =
     \<lparr>inventory = [],
      stock_movements =
        [sample_movement ''OUT'' 10 86400, sample_movement ''OUT'' 10 172800,
         sample_movement ''OUT'' 10 259200, sample_movement ''OUT'' 10 345600,
         sample_movement ''OUT'' 10 432000, sample_movement ''OUT'' 10 518400,
         sample_movement ''OUT'' 10 604800, sample_movement ''OUT'' 80 691200],
      products = [\<lparr>p_id = 1, p_name = ''Widget''\<rparr>]\<rparr>"


text \<open>
  The reorder example of the specification: quantity 12, nothing reserved, reorder level
  20, maximum stock level 200, and seven sales of three units, which predict a demand of
  90 for thirty days.
\<close>

definition reorder_ledger :: ledger where
  "reorder_ledger =
     \<lparr>inventory =
        [\<lparr>product_id = 1, warehouse_id = 1, quantity = 12, reserved_quantity = 0,
          reorder_level = 20, max_stock_level = 200, last_updated = 0\<rparr>],
      stock_movements =
        [sample_movement ''OUT'' 3 1, sample_movement ''OUT'' 3 2, sample_movement ''OUT'' 3 3,
         sample_movement ''OUT'' 3 4, sample_movement ''OUT'' 3 5, sample_movement ''OUT'' 3 6,
         sample_movement ''OUT'' 3 7],
      products = [\<lparr>p_id = 1, p_name = ''Widget''\<rparr>]\<rparr>"

section \<open>Facts about the SQL statements\<close>

lemma select_quantity_update_same:
  "select_quantity (update_quantity rows q t p w) p w =
     map_option (\<lambda>_. q) (select_quantity rows p w)"
  by (induction rows) (auto simp: select_quantity_def update_quantity_def matches_def)

lemma select_quantity_update_other:
  "p' \<noteq> p \<or> w' \<noteq> w \<Longrightarrow>
   select_quantity (update_quantity rows q t p w) p' w' = select_quantity rows p' w'"
  by (induction rows) (auto simp: select_quantity_def update_quantity_def matches_def)

lemma select_quantity_insert:
  "select_quantity (insert_inventory rows t p w q rl ml) p' w' =
     (case select_quantity rows p' w' of
        Some x \<Rightarrow> Some x
      | None \<Rightarrow> if p' = p \<and> w' = w then Some q else None)"
  by (induction rows) (auto simp: select_quantity_def insert_inventory_def matches_def)

lemma success_failure: "success (failure msg) = False"
  by (simp add: failure_def)

lemma sample_source_quantity: "select_quantity (inventory sample_ledger) 1 1 = Some 100"
  by (simp add: sample_ledger_def select_quantity_def matches_def)

lemma sample_dest_quantity: "select_quantity (inventory sample_ledger) 1 2 = Some 0"
  by (simp add: sample_ledger_def select_quantity_def matches_def)

lemma sample_no_record: "select_quantity (inventory sample_ledger) 1 3 = None"
  by (simp add: sample_ledger_def select_quantity_def matches_def)

lemma str_int_100: "str_int 100 = ''100''"
  by code_simp

lemma str_int_130: "str_int 130 = ''130''"
  by code_simp

section \<open>Transfers\<close>

text \<open>
  C1. A transfer between two distinct warehouses whose source record holds at least the
  requested quantity, and which succeeds, leaves the source with its quantity less the
  amount and the destination with its quantity plus the amount (the amount itself where
  the destination had no record); the sum of the two quantities is the same before and
  after, a missing record counting as 0.
\<close>

theorem transfer_conserves_stock:
  assumes "from_warehouse \<noteq> to_warehouse"
    and "select_quantity (inventory db) product from_warehouse = Some source_quantity"
    and "qty \<le> source_quantity"
    and "transfer_inventory clk db product from_warehouse to_warehouse qty user notes = (res, db')"
    and "success res"
  shows "select_quantity (inventory db') product from_warehouse = Some (source_quantity - qty)
       \<and> select_quantity (inventory db') product to_warehouse =
           Some (case select_quantity (inventory db) product to_warehouse of
                   None \<Rightarrow> qty | Some dest_quantity \<Rightarrow> dest_quantity + qty)
       \<and> stock_at db' product from_warehouse + stock_at db' product to_warehouse =
           stock_at db product from_warehouse + stock_at db product to_warehouse"
proof (cases "select_quantity (inventory db) product to_warehouse")
  case None
  with assms show ?thesis
    by (auto simp: transfer_inventory_def Let_def stock_at_def select_quantity_insert
        select_quantity_update_same select_quantity_update_other)
next
  case (Some d)
  with assms show ?thesis
    by (auto simp: transfer_inventory_def Let_def stock_at_def
        select_quantity_update_same select_quantity_update_other)
qed

text \<open>The scenario of the specification: 100 at one warehouse, 0 at the other, 30 moved.\<close>

theorem transfer_conserves_stock_witness:
  "stock_at (snd (transfer_inventory sample_clock sample_ledger 1 1 2 30 7 None)) 1 1 = 70
   \<and> stock_at (snd (transfer_inventory sample_clock sample_ledger 1 1 2 30 7 None)) 1 2 = 30
   \<and> stock_at sample_ledger 1 1 = 100 \<and> stock_at sample_ledger 1 2 = 0"
proof -
  obtain res db' where
    t: "transfer_inventory sample_clock sample_ledger 1 1 2 30 7 None = (res, db')"
    by (cases "transfer_inventory sample_clock sample_ledger 1 1 2 30 7 None")
  have a: "(1::int) \<noteq> 2" by simp
  have c: "(30::int) \<le> 100" by simp
  have d: "success res"
    using t by (auto simp: transfer_inventory_def Let_def sample_source_quantity
        split: option.splits)
  show ?thesis
    using transfer_conserves_stock [OF a sample_source_quantity c t d] t
      sample_source_quantity sample_dest_quantity
    by (simp add: stock_at_def)
qed

text \<open>
  C3. A transfer whose source record holds less than the requested quantity returns the
  failure result whose message reports the available and the requested amount, and
  leaves the ledger as it was.
\<close>

theorem transfer_insufficient_stock:
  assumes "select_quantity (inventory db) product from_warehouse = Some source_quantity"
    and "source_quantity < qty"
  shows "transfer_inventory clk db product from_warehouse to_warehouse qty user notes =
           (failure (''Insufficient inventory. Available: '' @ str_int source_quantity
                       @ '', Requested: '' @ str_int qty), db)
         \<and> \<not> success (fst (transfer_inventory clk db product from_warehouse to_warehouse
                              qty user notes))"
  using assms by (simp add: transfer_inventory_def success_failure)

theorem transfer_insufficient_stock_witness:
  "transfer_inventory sample_clock sample_ledger 1 1 2 130 7 None =
     (\<lparr>success = False, message = ''Insufficient inventory. Available: 100, Requested: 130'',
       transfer_reference = None, previous_quantity = None, new_quantity = None,
       reference_number = None\<rparr>, sample_ledger)"
proof -
  have b: "(100::int) < 130" by simp
  show ?thesis
    using transfer_insufficient_stock [OF sample_source_quantity b, of sample_clock 2 7 None]
    by (simp add: failure_def str_int_100 str_int_130)
qed

section \<open>Facts about a transfer\<close>

lemma transfer_success_source:
  assumes "success (fst (transfer_inventory clk db product from_warehouse to_warehouse qty user notes))"
  obtains source_quantity where
    "select_quantity (inventory db) product from_warehouse = Some source_quantity"
    "qty \<le> source_quantity"
proof (cases "select_quantity (inventory db) product from_warehouse")
  case None
  with assms show ?thesis by (simp add: transfer_inventory_def success_failure)
next
  case (Some sq)
  show ?thesis
  proof (cases "sq < qty")
    case True
    with Some assms show ?thesis by (simp add: transfer_inventory_def success_failure)
  next
    case False
    with Some that show ?thesis by simp
  qed
qed

lemma transfer_succeeds:
  assumes "select_quantity (inventory db) product from_warehouse = Some source_quantity"
    and "qty \<le> source_quantity"
  shows "success (fst (transfer_inventory clk db product from_warehouse to_warehouse qty user notes))"
  using assms by (simp add: transfer_inventory_def Let_def)

lemma transfer_movements:
  assumes "select_quantity (inventory db) product from_warehouse = Some source_quantity"
    and "qty \<le> source_quantity"
  shows "stock_movements (snd (transfer_inventory clk db product from_warehouse to_warehouse qty user notes)) =
     stock_movements db @
           [\<lparr>sm_product_id = product, sm_warehouse_id = from_warehouse,
             movement_type = ''TRANSFER_OUT'', sm_quantity = qty,
             sm_reference_number = Some (''TRANSFER-'' @ now_stamp clk),
             sm_notes = Some (''Transfer to warehouse '' @ str_int to_warehouse @ ''. ''
                              @ or_empty notes),
             sm_user_id = user, created_at = current_timestamp clk\<rparr>,
            \<lparr>sm_product_id = product, sm_warehouse_id = to_warehouse,
             movement_type = ''TRANSFER_IN'', sm_quantity = qty,
             sm_reference_number = Some (''TRANSFER-'' @ now_stamp clk),
             sm_notes = Some (''Transfer from warehouse '' @ str_int from_warehouse @ ''. ''
                              @ or_empty notes),
             sm_user_id = user, created_at = current_timestamp clk\<rparr>]"
  using assms by (simp add: transfer_inventory_def Let_def insert_movement_def)

lemma transfer_reference_value:
  assumes "select_quantity (inventory db) product from_warehouse = Some source_quantity"
    and "qty \<le> source_quantity"
  shows "transfer_reference (fst (transfer_inventory clk db product from_warehouse to_warehouse qty user notes)) =
     Some (''TRANSFER-'' @ now_stamp clk)"
  using assms by (simp add: transfer_inventory_def Let_def)

lemma transfer_inventory_existing_dest:
  assumes "select_quantity (inventory db) product from_warehouse = Some source_quantity"
    and "qty \<le> source_quantity"
    and "select_quantity (inventory db) product to_warehouse = Some dest_quantity"
  shows "inventory (snd (transfer_inventory clk db product from_warehouse to_warehouse qty user notes)) =
     update_quantity
       (update_quantity (inventory db) (source_quantity - qty) (now_first clk) product from_warehouse)
       (dest_quantity + qty) (now_second clk) product to_warehouse"
  using assms by (simp add: transfer_inventory_def Let_def)

lemma transfer_inventory_new_dest:
  assumes "select_quantity (inventory db) product from_warehouse = Some source_quantity"
    and "qty \<le> source_quantity"
    and "select_quantity (inventory db) product to_warehouse = None"
  shows "inventory (snd (transfer_inventory clk db product from_warehouse to_warehouse qty user notes)) =
     (let inv1 = update_quantity (inventory db) (source_quantity - qty) (now_first clk)
                   product from_warehouse;
          reorder_info = select_reorder_info inv1 product from_warehouse
      in insert_inventory inv1 (current_timestamp clk) product to_warehouse qty
           (case reorder_info of Some ri \<Rightarrow> fst ri | None \<Rightarrow> 10)
           (case reorder_info of Some ri \<Rightarrow> snd ri | None \<Rightarrow> 1000))"
  using assms by (simp add: transfer_inventory_def Let_def)

lemma transfer_failure_ledger:
  assumes "\<not> success (fst (transfer_inventory clk db product from_warehouse to_warehouse qty user notes))"
  shows "snd (transfer_inventory clk db product from_warehouse to_warehouse qty user notes) = db"
proof (cases "select_quantity (inventory db) product from_warehouse")
  case None
  then show ?thesis by (simp add: transfer_inventory_def)
next
  case (Some sq)
  show ?thesis
  proof (cases "sq < qty")
    case True
    with Some show ?thesis by (simp add: transfer_inventory_def)
  next
    case False
    then have "qty \<le> sq" by simp
    from transfer_succeeds [OF Some this] assms show ?thesis by blast
  qed
qed



text \<open>
  C4. A successful transfer appends exactly two rows to the movement log: a
  \<open>TRANSFER_OUT\<close> row at the source warehouse followed by a \<open>TRANSFER_IN\<close> row at the
  destination warehouse, both with the transferred quantity and both with the reference
  number generated in this call, which the result reports.
\<close>

theorem transfer_records_movement_pair:
  assumes "transfer_inventory clk db product from_warehouse to_warehouse qty user notes = (res, db')"
    and "success res"
  shows "transfer_reference res = Some (''TRANSFER-'' @ now_stamp clk)
       \<and> stock_movements db' = stock_movements db @
           [\<lparr>sm_product_id = product, sm_warehouse_id = from_warehouse,
             movement_type = ''TRANSFER_OUT'', sm_quantity = qty,
             sm_reference_number = Some (''TRANSFER-'' @ now_stamp clk),
             sm_notes = Some (''Transfer to warehouse '' @ str_int to_warehouse @ ''. ''
                              @ or_empty notes),
             sm_user_id = user, created_at = current_timestamp clk\<rparr>,
            \<lparr>sm_product_id = product, sm_warehouse_id = to_warehouse,
             movement_type = ''TRANSFER_IN'', sm_quantity = qty,
             sm_reference_number = Some (''TRANSFER-'' @ now_stamp clk),
             sm_notes = Some (''Transfer from warehouse '' @ str_int from_warehouse @ ''. ''
                              @ or_empty notes),
             sm_user_id = user, created_at = current_timestamp clk\<rparr>]"
proof -
  from assms have "success (fst (transfer_inventory clk db product from_warehouse
                                   to_warehouse qty user notes))"
    by simp
  then obtain sq where sq: "select_quantity (inventory db) product from_warehouse = Some sq"
    "qty \<le> sq"
    by (rule transfer_success_source)
  from transfer_reference_value [OF sq, of clk to_warehouse user "notes"]
    transfer_movements [OF sq, of clk to_warehouse user "notes"] assms(1)
  show ?thesis by simp
qed

theorem transfer_records_movement_pair_witness:
  "map (\<lambda>r. (sm_warehouse_id r, movement_type r, sm_quantity r, sm_reference_number r))
     (stock_movements (snd (transfer_inventory sample_clock sample_ledger 1 1 3 30 7 None))) =
   [(1, ''TRANSFER_OUT'', 30, Some ''TRANSFER-20240101120000''),
    (3, ''TRANSFER_IN'', 30, Some ''TRANSFER-20240101120000'')]"
proof -
  obtain res db' where
    t: "transfer_inventory sample_clock sample_ledger 1 1 3 30 7 None = (res, db')"
    by (cases "transfer_inventory sample_clock sample_ledger 1 1 3 30 7 None")
  have c: "(30::int) \<le> 100" by simp
  have d: "success res"
    using transfer_succeeds [OF sample_source_quantity c, of sample_clock 3 7 None] t by simp
  have e: "stock_movements sample_ledger = []" by (simp add: sample_ledger_def)
  have f: "now_stamp sample_clock = ''20240101120000''" by (simp add: sample_clock_def)
  show ?thesis
    using transfer_records_movement_pair [OF t d] t by (simp add: e f)
qed

section \<open>Transfers within one warehouse and of non-positive quantities\<close>






section \<open>The columns a transfer leaves alone\<close>

lemma kept_columns_update_quantity:
  "map kept_columns (update_quantity rows q t p w) = map kept_columns rows"
  by (induction rows) (simp_all add: update_quantity_def kept_columns_def)

lemma length_update_quantity: "length (update_quantity rows q t p w) = length rows"
  by (simp add: update_quantity_def)

lemma update_quantity_other_row:
  "i < length rows \<Longrightarrow> \<not> matches p w (rows ! i) \<Longrightarrow> update_quantity rows q t p w ! i = rows ! i"
  by (simp add: update_quantity_def)

lemma matches_update_quantity_nth:
  "i < length rows \<Longrightarrow>
   matches p' w' (update_quantity rows q t p w ! i) = matches p' w' (rows ! i)"
  by (simp add: update_quantity_def matches_def)

lemma sample_transfer_70:
  "success (fst (transfer_inventory sample_clock sample_ledger 1 1 2 70 7 None))
   \<and> map (\<lambda>r. (quantity r, reserved_quantity r))
        (filter (matches 1 1)
           (inventory (snd (transfer_inventory sample_clock sample_ledger 1 1 2 70 7 None))))
       = [(30, 40)]"
proof -
  have c: "(70::int) \<le> 100" by simp
  have i: "inventory (snd (transfer_inventory sample_clock sample_ledger 1 1 2 70 7 None)) =
     update_quantity
       (update_quantity (inventory sample_ledger) (100 - 70) (now_first sample_clock) 1 1)
       (0 + 70) (now_second sample_clock) 1 2"
    by (rule transfer_inventory_existing_dest [OF sample_source_quantity c sample_dest_quantity])
  have "map (\<lambda>r. (quantity r, reserved_quantity r))
        (filter (matches 1 1)
           (inventory (snd (transfer_inventory sample_clock sample_ledger 1 1 2 70 7 None))))
       = [(30, 40)]"
    unfolding i by (simp add: sample_ledger_def update_quantity_def matches_def)
  with transfer_succeeds [OF sample_source_quantity c, of sample_clock 2 7 None]
  show ?thesis by simp
qed

text \<open>
  C6. Whether or not it succeeds, a transfer leaves every record of the ledger with its
  product, warehouse, reserved quantity, reorder level and maximum stock level: of the
  records that were there, only quantity and time stamp can differ, and only on the rows
  of the source and of the destination. At most one record is added, for the destination,
  with nothing reserved. Reservations are not checked: moving 70 of 100 units of which 40
  are reserved succeeds and leaves 30 units against 40 reserved.
\<close>

theorem transfer_keeps_reserved_quantity:
  assumes "transfer_inventory clk db product from_warehouse to_warehouse qty user notes = (res, db')"
  shows "map kept_columns (take (length (inventory db)) (inventory db')) =
           map kept_columns (inventory db)
       \<and> (\<forall>i < length (inventory db).
             \<not> matches product from_warehouse (inventory db ! i)
             \<and> \<not> matches product to_warehouse (inventory db ! i)
             \<longrightarrow> inventory db' ! i = inventory db ! i)
       \<and> length (inventory db) \<le> length (inventory db')
       \<and> length (inventory db') \<le> length (inventory db) + 1
       \<and> list_all (\<lambda>r. matches product to_warehouse r \<and> reserved_quantity r = 0)
            (drop (length (inventory db)) (inventory db'))
       \<and> success (fst (transfer_inventory sample_clock sample_ledger 1 1 2 70 7 None))
       \<and> map (\<lambda>r. (quantity r, reserved_quantity r))
            (filter (matches 1 1)
               (inventory (snd (transfer_inventory sample_clock sample_ledger 1 1 2 70 7 None))))
           = [(30, 40)]"
proof (cases "success res")
  case False
  with assms transfer_failure_ledger [of clk db product from_warehouse to_warehouse qty user "notes"]
  have "db' = db" by simp
  then show ?thesis using sample_transfer_70 by simp
next
  case True
  with assms have "success (fst (transfer_inventory clk db product from_warehouse
                                   to_warehouse qty user notes))"
    by simp
  then obtain sq where sq: "select_quantity (inventory db) product from_warehouse = Some sq"
    "qty \<le> sq"
    by (rule transfer_success_source)
  define inv1 where
    "inv1 = update_quantity (inventory db) (sq - qty) (now_first clk) product from_warehouse"
  have l1: "length inv1 = length (inventory db)"
    by (simp add: inv1_def length_update_quantity)
  have k1: "map kept_columns inv1 = map kept_columns (inventory db)"
    by (simp add: inv1_def kept_columns_update_quantity)
  have o1: "inv1 ! i = inventory db ! i"
    if "i < length (inventory db)" "\<not> matches product from_warehouse (inventory db ! i)" for i
    using that by (simp add: inv1_def update_quantity_other_row)
  show ?thesis
  proof (cases "select_quantity (inventory db) product to_warehouse")
    case None
    from transfer_inventory_new_dest [OF sq None, of clk user "notes"] assms
    obtain rl ml where i: "inventory db' =
        insert_inventory inv1 (current_timestamp clk) product to_warehouse qty rl ml"
      by (simp add: Let_def inv1_def)
    show ?thesis
      using sample_transfer_70 l1 k1 o1
      by (simp add: i insert_inventory_def matches_def nth_append)
  next
    case (Some d)
    from transfer_inventory_existing_dest [OF sq Some, of clk user "notes"] assms
    have i: "inventory db' =
        update_quantity inv1 (d + qty) (now_second clk) product to_warehouse"
      by (simp add: inv1_def)
    have o2: "inventory db' ! i = inventory db ! i"
      if "i < length (inventory db)" "\<not> matches product from_warehouse (inventory db ! i)"
         "\<not> matches product to_warehouse (inventory db ! i)" for i
    proof -
      from that have "inv1 ! i = inventory db ! i" by (simp add: o1)
      with that l1 show ?thesis by (simp add: i update_quantity_other_row)
    qed
    show ?thesis
      using sample_transfer_70 l1 k1 o2
      by (simp add: i length_update_quantity kept_columns_update_quantity)
  qed
qed

theorem transfer_keeps_reserved_quantity_witness:
  "map reserved_quantity
     (inventory (snd (transfer_inventory sample_clock sample_ledger 1 1 3 30 7 None))) =
   [40, 0, 0, 0]
   \<and> inventory (snd (transfer_inventory sample_clock sample_ledger 1 1 3 30 7 None)) ! 2 =
       inventory sample_ledger ! 2"
proof -
  obtain res db' where
    t: "transfer_inventory sample_clock sample_ledger 1 1 3 30 7 None = (res, db')"
    by (cases "transfer_inventory sample_clock sample_ledger 1 1 3 30 7 None")
  have c: "(30::int) \<le> 100" by simp
  have n: "length (inventory sample_ledger) = 3" by (simp add: sample_ledger_def)
  have k: "map kept_columns (inventory sample_ledger) =
      [(1, 1, 40, 20, 200), (1, 2, 0, 10, 1000), (2, 1, 0, 10, 1000)]"
    by (simp add: sample_ledger_def kept_columns_def)
  have m: "\<not> matches 1 1 (inventory sample_ledger ! 2) \<and> \<not> matches 1 3 (inventory sample_ledger ! 2)"
    by (simp add: sample_ledger_def matches_def)
  from transfer_inventory_new_dest [OF sample_source_quantity c sample_no_record, of sample_clock 7 None] t
  obtain rl ml where i: "inventory db' =
        insert_inventory (update_quantity (inventory sample_ledger) (100 - 30)
          (now_first sample_clock) 1 1) (current_timestamp sample_clock) 1 3 30 rl ml"
    by (simp add: Let_def)
  have r: "map reserved_quantity (inventory db') = [40, 0, 0, 0]"
    unfolding i by (simp add: insert_inventory_def update_quantity_def sample_ledger_def matches_def)
  from transfer_keeps_reserved_quantity [OF t] n m
  have "inventory db' ! 2 = inventory sample_ledger ! 2" by simp
  with r t show ?thesis by simp
qed

section \<open>Adjustments\<close>





section \<open>Predictions\<close>

lemma sales_history:
  "get_historical_movements sales_ledger 777600 1 1 90 =
     [sample_movement ''OUT'' 80 691200, sample_movement ''OUT'' 10 604800,
      sample_movement ''OUT'' 10 518400, sample_movement ''OUT'' 10 432000,
      sample_movement ''OUT'' 10 345600, sample_movement ''OUT'' 10 259200,
      sample_movement ''OUT'' 10 172800, sample_movement ''OUT'' 10 86400]"
  by (simp add: get_historical_movements_def sales_ledger_def sample_movement_def)

lemma sales_outbound:
  "outbound_quantities (get_historical_movements sales_ledger 777600 1 1 90) =
     [80, 10, 10, 10, 10, 10, 10, 10]"
  by (simp add: sales_history outbound_quantities_def sample_movement_def)

lemma sales_history_length:
  "length (get_historical_movements sales_ledger 777600 1 1 90) = 8"
  by (simp add: sales_history)

lemma py_round_of_int: "py_round (of_int n) = n"
  by (simp add: py_round_def)

lemma py_round_numeral: "py_round (numeral k) = numeral k"
  using py_round_of_int [of "numeral k"] by simp

lemma round2_37875: "round2 (1515 / 4) = 1515 / 4"
  by (simp add: round2_def py_round_numeral)

lemma sales_prediction:
  "predicted_demand (predict_demand sales_ledger 777600 1 1 30) = 378.75"
proof -
  have "predicted_demand (predict_demand sales_ledger 777600 1 1 30) = round2 (1515 / 4)"
    by (simp add: predict_demand_def Let_def sales_outbound sales_history_length last7_def
        mean_def)
  then show ?thesis by (simp add: round2_37875)
qed

lemma sales_spec_prediction:
  "spec_predicted_total (get_historical_movements sales_ledger 777600 1 1 90) 30 = 588.75"
  by (simp add: spec_predicted_total_def Let_def sales_outbound last7_def mean_def)


text \<open>
  C2. The claim takes the recent average over the seven most recent outbound movements.
  The history comes newest first and \<open>daily_movements[-7:]\<close> takes its tail, the seven
  oldest outbound movements of the window. On eight daily sales, ten units on each of the
  first seven days and eighty on the last, the recent average of the code is 10 and the
  predicted total for thirty days is 378.75; the seven most recent sales average 20 and
  give 588.75.
\<close>

theorem predict_demand_recent_window:
  "map sm_quantity (get_historical_movements sales_ledger 777600 1 1 90) =
     [80, 10, 10, 10, 10, 10, 10, 10]
   \<and> last7 (outbound_quantities (get_historical_movements sales_ledger 777600 1 1 90)) =
       [10, 10, 10, 10, 10, 10, 10]
   \<and> predicted_demand (predict_demand sales_ledger 777600 1 1 30) = 378.75
   \<and> spec_predicted_total (get_historical_movements sales_ledger 777600 1 1 90) 30 = 588.75"
proof -
  have "map sm_quantity (get_historical_movements sales_ledger 777600 1 1 90) =
     [80, 10, 10, 10, 10, 10, 10, 10]"
    by (simp add: sales_history sample_movement_def)
  moreover have "last7 (outbound_quantities (get_historical_movements sales_ledger 777600 1 1 90)) =
       [10, 10, 10, 10, 10, 10, 10]"
    by (simp add: sales_outbound last7_def)
  ultimately show ?thesis
    using sales_prediction sales_spec_prediction by simp
qed





section \<open>Reorder recommendations\<close>

lemma reorder_row:
  "select_inventory_product reorder_ledger 1 1 =
     Some (\<lparr>product_id = 1, warehouse_id = 1, quantity = 12, reserved_quantity = 0,
            reorder_level = 20, max_stock_level = 200, last_updated = 0\<rparr>, ''Widget'')"
  by (simp add: select_inventory_product_def reorder_ledger_def matches_def)

lemma reorder_history_length: "length (get_historical_movements reorder_ledger 100 1 1 90) = 7"
  by (simp add: get_historical_movements_def reorder_ledger_def sample_movement_def)

lemma reorder_outbound:
  "outbound_quantities (get_historical_movements reorder_ledger 100 1 1 90) =
     [3, 3, 3, 3, 3, 3, 3]"
  by (simp add: get_historical_movements_def reorder_ledger_def sample_movement_def
      outbound_quantities_def)

lemma reorder_prediction: "predicted_demand (predict_demand reorder_ledger 100 1 1 30) = 90"
  by (simp add: predict_demand_def Let_def reorder_history_length reorder_outbound last7_def
      mean_def round2_def py_round_numeral)

lemma reorder_example:
  "should_reorder (get_reorder_recommendation reorder_ledger 100 1 1)
   \<and> recommended_quantity (get_reorder_recommendation reorder_ledger 100 1 1) = Some 148
   \<and> predicted_demand_30_days (get_reorder_recommendation reorder_ledger 100 1 1) = Some 90
   \<and> urgency (get_reorder_recommendation reorder_ledger 100 1 1) = Some ''medium''"
  by (simp add: get_reorder_recommendation_def Let_def reorder_row reorder_prediction
      py_round_numeral)

text \<open>
  C8 as stated fails at its own example: with quantity 12, nothing reserved, reorder level
  20 and maximum stock level 200 the recommended quantity is 148, but 12 is above half
  the reorder level and the urgency is medium, not high.
\<close>

theorem reorder_example_urgency_counterexample:
  "select_inventory_product reorder_ledger 1 1 =
     Some (\<lparr>product_id = 1, warehouse_id = 1, quantity = 12, reserved_quantity = 0,
            reorder_level = 20, max_stock_level = 200, last_updated = 0\<rparr>, ''Widget'')
   \<and> recommended_quantity (get_reorder_recommendation reorder_ledger 100 1 1) = Some 148
   \<and> urgency (get_reorder_recommendation reorder_ledger 100 1 1) = Some ''medium''
   \<and> urgency (get_reorder_recommendation reorder_ledger 100 1 1) \<noteq> Some ''high''"
  using reorder_row reorder_example by simp

text \<open>
  C8, amended. With \<open>available = quantity - reserved_quantity\<close>: whenever the available
  quantity is at most the reorder level, the recommendation is to reorder
  \<open>round(max_stock_level * 0.8 - available)\<close> units, with urgency high if the available
  quantity is at most half the reorder level and medium otherwise. Quantity 12, nothing
  reserved, reorder level 20 and maximum stock level 200 yield 148 units with urgency
  medium.
\<close>

theorem reorder_recommendation_rule:
  assumes "select_inventory_product db product warehouse = Some (i, name)"
    and "available = quantity i - reserved_quantity i"
    and "available \<le> reorder_level i"
    and "r = get_reorder_recommendation db now product warehouse"
  shows "should_reorder r
       \<and> recommended_quantity r =
           Some (py_round (real_of_int (max_stock_level i) * 0.8 - real_of_int available))
       \<and> urgency r =
           Some (if real_of_int available \<le> 0.5 * real_of_int (reorder_level i)
                 then ''high'' else ''medium'')
       \<and> recommended_quantity (get_reorder_recommendation reorder_ledger 100 1 1) = Some 148
       \<and> urgency (get_reorder_recommendation reorder_ledger 100 1 1) = Some ''medium''"
  using assms reorder_example
  by (simp add: get_reorder_recommendation_def Let_def)

theorem reorder_recommendation_rule_witness:
  "should_reorder (get_reorder_recommendation reorder_ledger 100 1 1)
   \<and> recommended_quantity (get_reorder_recommendation reorder_ledger 100 1 1) =
       Some (py_round (200 * 0.8 - 12))
   \<and> py_round (200 * 0.8 - 12) = 148
   \<and> urgency (get_reorder_recommendation reorder_ledger 100 1 1) = Some ''medium''"
proof -
  have a: "(12::int) = quantity \<lparr>product_id = 1, warehouse_id = 1, quantity = 12,
             reserved_quantity = 0, reorder_level = 20, max_stock_level = 200, last_updated = 0\<rparr>
           - reserved_quantity \<lparr>product_id = 1, warehouse_id = 1, quantity = 12,
             reserved_quantity = 0, reorder_level = 20, max_stock_level = 200, last_updated = 0\<rparr>"
    by simp
  have b: "(12::int) \<le> reorder_level \<lparr>product_id = 1, warehouse_id = 1, quantity = 12,
             reserved_quantity = 0, reorder_level = 20, max_stock_level = 200, last_updated = 0\<rparr>"
    by simp
  from reorder_recommendation_rule [OF reorder_row a b refl, of 100]
  show ?thesis by (simp add: py_round_numeral)
qed

end
